theory Spec2Isabelle
  imports Main "HOL-Library.Word"
begin

unbundle bit_operations_syntax

section \<open>Exceptions\<close>

text \<open>
  The exception classes that GatewayMgr.py defines, imports or can meet. A Python 2
  \<open>str\<close> is a byte string and is modelled as \<^typ>\<open>string\<close>, whose characters are bytes.
  \<open>OtherException\<close> stands for any further subclass of \<open>Exception\<close>,
  \<open>OtherBaseException\<close> for a \<open>BaseException\<close> that is neither an \<open>Exception\<close> nor
  \<open>KeyboardInterrupt\<close> (\<open>SystemExit\<close>, gevent's \<open>GreenletExit\<close>).
\<close>

datatype exc =
    DataNeededError string
  | MaxLengthError string
  | InconsistentError string
  | KeyboardInterrupt
  | socket_error
  | struct_error
  | KeyError string
  | TypeError
  | AttributeError
  | OtherException string
  | OtherBaseException string

text \<open>\<open>except Exception\<close>: every class above but the two outside \<open>Exception\<close>.\<close>

fun is_Exception :: "exc \<Rightarrow> bool" where
  "is_Exception KeyboardInterrupt = False"
| "is_Exception (OtherBaseException _) = False"
| "is_Exception _ = True"

fun is_DataNeededError :: "exc \<Rightarrow> bool" where
  "is_DataNeededError (DataNeededError _) = True"
| "is_DataNeededError _ = False"

fun is_InconsistentError :: "exc \<Rightarrow> bool" where
  "is_InconsistentError (InconsistentError _) = True"
| "is_InconsistentError _ = False"

section \<open>The wire container and the type bits\<close>

text \<open>The fields of \<open>gw_message_pb2.Container\<close> that the module reads and writes.\<close>

record Container =
  SID :: string
  RID :: string
  MID :: string
  STIME :: int
  TYPE' :: "32 word"
  BODY :: string

definition MSG_SERVER :: "32 word" where "MSG_SERVER = 0x0"
definition MSG_CLIENT :: "32 word" where "MSG_CLIENT = 0x1"
definition MSG_AUTH :: "32 word" where "MSG_AUTH = 0x2"
definition MSG_HEARTBEAT :: "32 word" where "MSG_HEARTBEAT = 0x4"
definition MSG_RECEIPT :: "32 word" where "MSG_RECEIPT = 0x8"
definition MSG_NOT_TRANSIENT :: "32 word" where "MSG_NOT_TRANSIENT = 0x10"
definition MSG_GROUP :: "32 word" where "MSG_GROUP = 0x20"
definition MSG_EVENT :: "32 word" where "MSG_EVENT = 0x40"
definition MSG_ERROR :: "32 word" where "MSG_ERROR = 0x80000000"

definition MAX_PACKET_LENGTH :: nat where
  "MAX_PACKET_LENGTH = 2 ^ 20"

text \<open>
  The generated module \<open>gw_message_pb2\<close> is not part of the source file: the schema's
  serialisation and parsing are parameters of the codec. Both can raise.
\<close>

record gw_message_pb2 =
  SerializeToString :: "Container \<Rightarrow> exc + string"
  ParseFromString :: "string \<Rightarrow> exc + Container"

section \<open>Packet\<close>

text \<open>
  \<open>struct.pack('>I', n)\<close>: four octets, most significant first; \<open>struct.error\<close> when
  \<open>n\<close> does not fit 32 bits. \<open>struct.unpack('>I', s)\<close> wants exactly four octets.
\<close>

definition struct_pack_I :: "nat \<Rightarrow> exc + string" where
  "struct_pack_I n =
     (if n < 2 ^ 32
      then Inr [char_of (n div 2 ^ 24), char_of (n div 2 ^ 16), char_of (n div 2 ^ 8), char_of n]
      else Inl struct_error)"

definition struct_unpack_I :: "string \<Rightarrow> exc + nat" where
  "struct_unpack_I s =
     (case s of
        [a, b, c, d] \<Rightarrow>
          Inr (of_char a * 2 ^ 24 + of_char b * 2 ^ 16 + of_char c * 2 ^ 8 + of_char d)
      | _ \<Rightarrow> Inl struct_error)"

definition Pack :: "gw_message_pb2 \<Rightarrow> Container \<Rightarrow> exc + string" where
  "Pack pb message =
     (case SerializeToString pb message of
        Inl e \<Rightarrow> Inl e
      | Inr raw \<Rightarrow>
          (case struct_pack_I (length raw) of
             Inl e \<Rightarrow> Inl e
           | Inr data \<Rightarrow> Inr (data @ raw)))"

definition UnPack :: "gw_message_pb2 \<Rightarrow> string \<Rightarrow> exc + Container" where
  "UnPack pb data =
     (if length data < 4 then Inl (DataNeededError ''At least 4 octets'')
      else
        (case struct_unpack_I (take 4 data) of
           Inl e \<Rightarrow> Inl e
         | Inr len \<Rightarrow>
             if len > MAX_PACKET_LENGTH then Inl (MaxLengthError [])
             else if length data < 4 + len then Inl (DataNeededError ''Need more data'')
             else ParseFromString pb (take len (drop 4 data))))"

section \<open>JSON bodies\<close>

text \<open>
  What \<open>json.loads\<close> can return. The parser itself belongs to a library and is a
  parameter of the model; a dictionary is kept as an association list.
\<close>

datatype json =
    JNull
  | JBool bool
  | JNumber string
  | JString string
  | JArray "json list"
  | JObject "(string \<times> json) list"

text \<open>\<open>msg_body[k]\<close> with a string key: only a dictionary holding the key answers.\<close>

fun getitem :: "json \<Rightarrow> string \<Rightarrow> exc + json" where
  "getitem (JObject kvs) k = (case map_of kvs k of None \<Rightarrow> Inl (KeyError k) | Some v \<Rightarrow> Inr v)"
| "getitem _ k = Inl TypeError"

text \<open>
  \<open>mid in self.callback_tbl\<close>: lists and dictionaries are unhashable (\<open>TypeError\<close>); the
  table's keys are all strings, so only a string can be found in it.
\<close>

fun hash_key :: "json \<Rightarrow> exc + string option" where
  "hash_key (JString s) = Inr (Some s)"
| "hash_key (JArray _) = Inl TypeError"
| "hash_key (JObject _) = Inl TypeError"
| "hash_key _ = Inr None"

section \<open>The world outside the manager\<close>

text \<open>
  Every call that leaves the module: the receipt callback \<open>_func\<close>, the two presence
  callbacks, the presence store, the sockets and \<open>os.urandom\<close>. Callbacks are opaque
  values of type \<open>'cb\<close>.
\<close>

datatype 'cb call =
    func 'cb int
  | online_callback string
  | offline_callback string
  | mysql
  | delToOnlineTable string
  | socket_socket
  | socket_connect
  | SSLSocket
  | gw_fd_write string
  | gw_fd_raw_close
  | wait_read
  | gw_fd_read
  | os_urandom nat

datatype logger_method = log_debug | log_warn | log_warning | log_error

datatype log_text =
    Confirmed string json
  | Got_in_callback exc
  | Incoming_from string string
  | Now_online string
  | Error_setting_online string exc
  | Now_offline string
  | Error_setting_offline string exc
  | Failed_to_send_packet

datatype 'cb event = Call "'cb call" | Log logger_method log_text | print_exc

text \<open>
  The world decides, from the history of events up to and including a call, whether the
  call raises (\<open>raises\<close>), which bytes a read returns and which octets \<open>os.urandom\<close>
  delivers. \<open>STATUS_SUCCESS\<close> is the constant of \<open>MessageObj\<close>, defined outside the file.
\<close>

record 'cb world =
  pb :: gw_message_pb2
  json_loads :: "string \<Rightarrow> exc + json"
  STATUS_SUCCESS :: int
  raises :: "'cb event list \<Rightarrow> exc option"
  read_result :: "'cb event list \<Rightarrow> string"
  urandom_result :: "'cb event list \<Rightarrow> nat \<Rightarrow> char"

section \<open>GatewayMgr\<close>

text \<open>
  The attributes of the manager (\<open>_gw_fd_raw\<close>, \<open>gw_fd\<close>, \<open>callback_tbl\<close>,
  \<open>_send_queue\<close>) and the trace of everything it did to the world. A socket object is
  named by the length of the trace at its creation.
\<close>

record 'cb GatewayMgr =
  gw_fd_raw :: "nat option"
  gw_fd :: "nat option"
  callback_tbl :: "string \<rightharpoonup> 'cb"
  send_queue :: "string list"
  trace :: "'cb event list"

definition PUSH_SERVER_SID :: string where
  "PUSH_SERVER_SID = ''00000001''"

definition ext :: "'cb world \<Rightarrow> 'cb call \<Rightarrow> 'cb GatewayMgr \<Rightarrow> exc option \<times> 'cb GatewayMgr" where
  "ext w c st = (let tr = trace st @ [Call c] in (raises w tr, st\<lparr>trace := tr\<rparr>))"

definition logger :: "logger_method \<Rightarrow> log_text \<Rightarrow> 'cb GatewayMgr \<Rightarrow> 'cb GatewayMgr" where
  "logger m t st = st\<lparr>trace := trace st @ [Log m t]\<rparr>"

definition disconnected :: "'cb GatewayMgr \<Rightarrow> bool" where
  \<comment> \<open>\<open>not self.gw_fd or not self._gw_fd_raw\<close>\<close>
  "disconnected st = (gw_fd st = None \<or> gw_fd_raw st = None)"

definition connect :: "'cb world \<Rightarrow> 'cb GatewayMgr \<Rightarrow> exc option \<times> 'cb GatewayMgr" where
  "connect w st =
     (case ext w socket_socket st of
        (Some e, st1) \<Rightarrow> (Some e, st1)
      | (None, st1) \<Rightarrow>
          (let st2 = st1\<lparr>gw_fd_raw := Some (length (trace st1))\<rparr> in
           case ext w socket_connect st2 of
             (Some e, st3) \<Rightarrow> (Some e, st3)
           | (None, st3) \<Rightarrow>
               (case ext w SSLSocket st3 of
                  (Some e, st4) \<Rightarrow> (Some e, st4)
                | (None, st4) \<Rightarrow> (None, st4\<lparr>gw_fd := Some (length (trace st4))\<rparr>))))"

subsection \<open>Enqueueing\<close>

text \<open>\<open>binascii.hexlify\<close>: two lower-case hexadecimal digits for each octet.\<close>

definition hexdigit :: "nat \<Rightarrow> char" where
  "hexdigit n = ''0123456789abcdef'' ! (n mod 16)"

definition hexlify :: "string \<Rightarrow> string" where
  "hexlify s = concat (map (\<lambda>c. [hexdigit (of_char c div 16), hexdigit (of_char c mod 16)]) s)"

definition new_Container ::
  "string \<Rightarrow> 32 word \<Rightarrow> string \<Rightarrow> string \<Rightarrow> Container" where
  "new_Container rid msgtype body mid =
     \<lparr>SID = PUSH_SERVER_SID, RID = rid, MID = mid, STIME = 0, TYPE' = msgtype, BODY = body\<rparr>"

text \<open>
  \<open>mid or binascii.hexlify(os.urandom(9))\<close>: \<open>None\<close> and the empty string are both false.
  The result is the message id after \<open>'PSH' +\<close>.
\<close>

definition make_mid ::
  "'cb world \<Rightarrow> string option \<Rightarrow> 'cb GatewayMgr \<Rightarrow> (exc + string) \<times> 'cb GatewayMgr" where
  "make_mid w mid st =
     (if mid \<noteq> None \<and> mid \<noteq> Some []
      then (Inr (''PSH'' @ the mid), st)
      else
        (case ext w (os_urandom 9) st of
           (Some e, st1) \<Rightarrow> (Inl e, st1)
         | (None, st1) \<Rightarrow>
             (Inr (''PSH'' @ hexlify (map (urandom_result w (trace st1)) [0..<9])), st1)))"

definition queued_send ::
  "'cb world \<Rightarrow> string \<Rightarrow> 32 word \<Rightarrow> string \<Rightarrow> 'cb option \<Rightarrow> string option \<Rightarrow>
   'cb GatewayMgr \<Rightarrow> exc option \<times> 'cb GatewayMgr" where
  "queued_send w rid msgtype body callback mid st =
     (case make_mid w mid st of
        (Inl e, st1) \<Rightarrow> (Some e, st1)
      | (Inr mid', st1) \<Rightarrow>
          (case Pack (pb w) (new_Container rid msgtype body mid') of
             Inl e \<Rightarrow> (Some e, st1)
           | Inr data \<Rightarrow>
               (let st2 = st1\<lparr>send_queue := send_queue st1 @ [data]\<rparr> in
                case callback of
                  None \<Rightarrow> (None, st2)
                | Some cb \<Rightarrow> (None, st2\<lparr>callback_tbl := (callback_tbl st2)(mid' \<mapsto> cb)\<rparr>))))"

text \<open>
  The bundle of \<open>send_push\<close>: \<open>bundle.user.guid\<close>, \<open>bundle.msg.payload\<close>,
  \<open>bundle.msg.msgid\<close> (as \<open>%s\<close> prints it) and \<open>bundle.callback\<close>.
\<close>

record 'cb MessageObj =
  guid :: string
  payload :: string
  msgid :: string
  callback :: "'cb option"

text \<open>\<open>'%07s' % s\<close>: right-justified in seven columns, padded with spaces.\<close>

definition fmt_07s :: "string \<Rightarrow> string" where
  "fmt_07s s = replicate (7 - length s) CHR '' '' @ s"

definition send_push ::
  "'cb world \<Rightarrow> 'cb MessageObj \<Rightarrow> 'cb GatewayMgr \<Rightarrow> exc option \<times> 'cb GatewayMgr" where
  "send_push w bundle st =
     (case (if disconnected st then connect w st else (None, st)) of
        (Some e, st1) \<Rightarrow> (Some e, st1)
      | (None, st1) \<Rightarrow>
          queued_send w (guid bundle) (MSG_CLIENT OR MSG_RECEIPT) (payload bundle)
            (callback bundle) (Some (fmt_07s (msgid bundle) @ ''-'' @ guid bundle)) st1)"

subsection \<open>The send loop\<close>

text \<open>
  \<open>for _ in range(2)\<close> with its \<open>break\<close>: the first argument counts the rounds left. The
  result holds the exception that leaves the loop, if any, and the flag \<open>ok\<close>. The bare
  \<open>except: pass\<close> around \<open>close\<close> swallows whatever \<open>close\<close> raises.
\<close>

fun send_attempts ::
  "nat \<Rightarrow> 'cb world \<Rightarrow> string \<Rightarrow> 'cb GatewayMgr \<Rightarrow> exc option \<times> bool \<times> 'cb GatewayMgr" where
  "send_attempts 0 w b st = (None, False, st)"
| "send_attempts (Suc n) w b st =
     (case (if disconnected st then connect w st else (None, st)) of
        (Some e, st1) \<Rightarrow> (Some e, False, st1)
      | (None, st1) \<Rightarrow>
          (case ext w (gw_fd_write b) st1 of
             (None, st2) \<Rightarrow> (None, True, st2)
           | (Some e, st2) \<Rightarrow>
               if e = socket_error
               then send_attempts n w b
                      ((snd (ext w gw_fd_raw_close st2))\<lparr>gw_fd_raw := None, gw_fd := None\<rparr>)
               else (Some e, False, st2)))"

text \<open>One round of \<open>while True\<close> after \<open>b = self._send_queue.get()\<close>.\<close>

definition send_item ::
  "'cb world \<Rightarrow> string \<Rightarrow> 'cb GatewayMgr \<Rightarrow> exc option \<times> 'cb GatewayMgr" where
  "send_item w b st =
     (case send_attempts 2 w b st of
        (Some e, ok, st1) \<Rightarrow> (Some e, st1)
      | (None, ok, st1) \<Rightarrow>
          (None, if \<not> ok then logger log_warn Failed_to_send_packet st1 else st1))"

text \<open>
  \<open>_send\<close> over the items that are in the queue: each is taken from the head and
  handed to \<open>send_item\<close>; an exception ends the loop, an empty queue blocks it.
\<close>

fun send :: "'cb world \<Rightarrow> string list \<Rightarrow> 'cb GatewayMgr \<Rightarrow> exc option \<times> 'cb GatewayMgr" where
  "send w [] st = (None, st)"
| "send w (b # bs) st =
     (case send_item w b (st\<lparr>send_queue := tl (send_queue st)\<rparr>) of
        (Some e, st1) \<Rightarrow> (Some e, st1)
      | (None, st1) \<Rightarrow> send w bs st1)"

definition send_loop :: "'cb world \<Rightarrow> 'cb GatewayMgr \<Rightarrow> exc option \<times> 'cb GatewayMgr" where
  "send_loop w st = send w (send_queue st) st"

subsection \<open>The response dispatcher\<close>

text \<open>The receipt branch of \<open>_resp_handler\<close>, from \<open>mid = msg_body['mid']\<close> on.\<close>

definition resp_receipt ::
  "'cb world \<Rightarrow> Container \<Rightarrow> json \<Rightarrow> 'cb GatewayMgr \<Rightarrow> exc option \<times> 'cb GatewayMgr" where
  "resp_receipt w msg msg_body st =
     (case getitem msg_body ''mid'' of
        Inl e \<Rightarrow> (Some e, st)
      | Inr mid \<Rightarrow>
          (let st1 = logger log_debug (Confirmed (SID msg) mid) st in
           case hash_key mid of
             Inl e \<Rightarrow> (Some e, st1)
           | Inr None \<Rightarrow> (None, st1)
           | Inr (Some k) \<Rightarrow>
               (case callback_tbl st1 k of
                  None \<Rightarrow> (None, st1)
                | Some f \<Rightarrow>
                    (case ext w (func f (STATUS_SUCCESS w))
                            (st1\<lparr>callback_tbl := (callback_tbl st1)(k := None)\<rparr>) of
                       (None, st2) \<Rightarrow> (None, st2)
                     | (Some e, st2) \<Rightarrow>
                         if e = KeyboardInterrupt then (Some KeyboardInterrupt, st2)
                         else if is_Exception e
                         then (None, (logger log_error (Got_in_callback e) st2)
                                 \<lparr>trace := trace (logger log_error (Got_in_callback e) st2) @ [print_exc]\<rparr>)
                         else (Some e, st2)))))"

text \<open>The presence branch: \<open>msg.TYPE & MSG_EVENT\<close> on a server-class frame.\<close>

definition resp_event ::
  "'cb world \<Rightarrow> Container \<Rightarrow> json \<Rightarrow> 'cb GatewayMgr \<Rightarrow> exc option \<times> 'cb GatewayMgr" where
  "resp_event w msg msg_body st =
     (case getitem msg_body ''type'' of
        Inl e \<Rightarrow> (Some e, st)
      | Inr t \<Rightarrow>
          if t = JString ''online'' then
            (case ext w (online_callback (SID msg)) (logger log_debug (Now_online (SID msg)) st) of
               (None, st1) \<Rightarrow> (None, st1)
             | (Some e, st1) \<Rightarrow>
                 if is_InconsistentError e
                 then (None, logger log_warning (Error_setting_online (SID msg) e) st1)
                 else (Some e, st1))
          else if t = JString ''offline'' then
            (case ext w mysql st of
               (Some e, st1) \<Rightarrow> (Some e, st1)
             | (None, st1) \<Rightarrow>
                 (case ext w (delToOnlineTable (SID msg))
                         (logger log_debug (Now_offline (SID msg)) st1) of
                    (Some e, st2) \<Rightarrow>
                      if is_InconsistentError e
                      then (None, logger log_warning (Error_setting_offline (SID msg) e) st2)
                      else (Some e, st2)
                  | (None, st2) \<Rightarrow>
                      (case ext w (offline_callback (SID msg)) st2 of
                         (Some e, st3) \<Rightarrow>
                           if is_InconsistentError e
                           then (None, logger log_warning (Error_setting_offline (SID msg) e) st3)
                           else (Some e, st3)
                       | (None, st3) \<Rightarrow> (None, st3))))
          else (None, st))"

text \<open>\<open>json.loads(msg.BODY)\<close> for a body that is not empty, \<open>{}\<close> otherwise.\<close>

definition load_body :: "'cb world \<Rightarrow> Container \<Rightarrow> exc + json" where
  "load_body w msg = (if BODY msg \<noteq> [] then json_loads w (BODY msg) else Inr (JObject []))"

definition resp_handler ::
  "'cb world \<Rightarrow> Container \<Rightarrow> 'cb GatewayMgr \<Rightarrow> exc option \<times> 'cb GatewayMgr" where
  "resp_handler w msg st =
     (case load_body w msg of
        Inl e \<Rightarrow> (Some e, st)
      | Inr msg_body \<Rightarrow>
          if TYPE' msg AND MSG_CLIENT \<noteq> 0 then
            (case getitem msg_body ''type'' of
               Inl e \<Rightarrow> (Some e, st)
             | Inr t \<Rightarrow>
                 if t = JString ''receipt'' then resp_receipt w msg msg_body st
                 else (None, logger log_debug (Incoming_from (SID msg) (BODY msg)) st))
          else if TYPE' msg AND MSG_EVENT \<noteq> 0 then resp_event w msg msg_body st
          else (None, st))"

subsection \<open>The receive loop\<close>

text \<open>
  How one round of \<open>while True\<close> in \<open>_recv\<close> ends: \<open>continue\<close> or falling off the end of
  the body, \<open>break\<close>, or an exception that nothing in \<open>_recv\<close> catches.
\<close>

datatype round_end = Continue | Break | Propagate exc

text \<open>
  One round, from the buffer \<open>buf\<close>; the result carries the buffer after the round.
  \<open>self.gw_fd.fileno()\<close> on \<open>None\<close> is an \<open>AttributeError\<close>, outside what the \<open>try\<close> catches.
\<close>

definition recv_round ::
  "'cb world \<Rightarrow> string \<Rightarrow> 'cb GatewayMgr \<Rightarrow> round_end \<times> string \<times> 'cb GatewayMgr" where
  "recv_round w buf st =
     (if gw_fd st = None then (Propagate AttributeError, buf, st)
      else
        (case ext w wait_read st of
           (Some e, st1) \<Rightarrow>
             if e = socket_error then (Break, buf, st1) else (Propagate e, buf, st1)
         | (None, st1) \<Rightarrow>
             (case ext w gw_fd_read st1 of
                (Some e, st2) \<Rightarrow> (Propagate e, buf, st2)
              | (None, st2) \<Rightarrow>
                  (let buf1 = buf @ read_result w (trace st2) in
                   if length buf1 = 0 then (Continue, buf1, st2)
                   else
                     (case UnPack (pb w) buf1 of
                        Inl e \<Rightarrow>
                          if is_DataNeededError e then (Continue, buf1, st2)
                          else (Propagate e, buf1, st2)
                      | Inr msg \<Rightarrow>
                          (case resp_handler w msg st2 of
                             (Some e, st3) \<Rightarrow>
                               if e = KeyboardInterrupt then (Break, [], st3)
                               else (Propagate e, [], st3)
                           | (None, st3) \<Rightarrow> (Continue, [], st3)))))))"

text \<open>
  \<open>_recv\<close>, bounded by the number of rounds: \<open>None\<close> when the rounds are used up while
  the loop is still running, \<open>Some None\<close> after \<open>break\<close>, \<open>Some (Some e)\<close> when \<open>e\<close>
  leaves the loop.
\<close>

fun recv ::
  "nat \<Rightarrow> 'cb world \<Rightarrow> string \<Rightarrow> 'cb GatewayMgr \<Rightarrow> exc option option \<times> 'cb GatewayMgr" where
  "recv 0 w buf st = (None, st)"
| "recv (Suc n) w buf st =
     (case recv_round w buf st of
        (Continue, buf1, st1) \<Rightarrow> recv n w buf1 st1
      | (Break, buf1, st1) \<Rightarrow> (Some None, st1)
      | (Propagate e, buf1, st1) \<Rightarrow> (Some (Some e), st1))"

section \<open>Reading traces\<close>

text \<open>
  \<open>precedes a b xs\<close>: no \<open>b\<close> occurs in \<open>xs\<close> before the first \<open>a\<close>.
\<close>

fun precedes :: "'a \<Rightarrow> 'a \<Rightarrow> 'a list \<Rightarrow> bool" where
  "precedes a b [] = True"
| "precedes a b (x # xs) = (if x = a then True else if x = b then False else precedes a b xs)"

fun is_invocation :: "'cb event \<Rightarrow> bool" where
  "is_invocation (Call (func f s)) = True"
| "is_invocation _ = False"

fun is_write :: "'cb event \<Rightarrow> bool" where
  "is_write (Call (gw_fd_write b)) = True"
| "is_write _ = False"

fun is_Log :: "'cb event \<Rightarrow> bool" where
  "is_Log (Log m t) = True"
| "is_Log _ = False"

text \<open>
  The answers of the world to the writes among the events \<open>evs\<close> that follow the
  history \<open>pre\<close>, in order: \<open>None\<close> for a write that returned.
\<close>

fun write_results :: "'cb world \<Rightarrow> 'cb event list \<Rightarrow> 'cb event list \<Rightarrow> exc option list" where
  "write_results w pre [] = []"
| "write_results w pre (e # es) =
     (if is_write e then [raises w (pre @ [e])] else []) @ write_results w (pre @ [e]) es"

text \<open>
  \<open>enqueued_frame w msg st st'\<close>: from \<open>st\<close> to \<open>st'\<close> the send queue grew by exactly the
  encoding of the container \<open>msg\<close>.
\<close>

definition enqueued_frame ::
  "'cb world \<Rightarrow> Container \<Rightarrow> 'cb GatewayMgr \<Rightarrow> 'cb GatewayMgr \<Rightarrow> bool" where
  "enqueued_frame w msg st st' =
     (case Pack (pb w) msg of
        Inl e \<Rightarrow> False
      | Inr data \<Rightarrow> send_queue st' = send_queue st @ [data])"

text \<open>The state of a round of \<open>_recv\<close> once \<open>wait_read\<close> and \<open>read\<close> have returned.\<close>

definition after_read :: "'cb GatewayMgr \<Rightarrow> 'cb GatewayMgr" where
  "after_read st = st\<lparr>trace := trace st @ [Call wait_read, Call gw_fd_read]\<rparr>"

section \<open>A small world to run the model in\<close>

text \<open>
  A codec and a JSON parser given by finite tables, and a world that answers from
  them: reads deliver the chunks in order, and \<open>os.urandom\<close> delivers the octet
  \<open>0xAB\<close> throughout.
\<close>

definition table_pb :: "(Container \<times> string) list \<Rightarrow> gw_message_pb2" where
  "table_pb tbl =
     \<lparr>SerializeToString =
        (\<lambda>c. case map_of tbl c of None \<Rightarrow> Inl (OtherException ''EncodeError'') | Some s \<Rightarrow> Inr s),
      ParseFromString =
        (\<lambda>s. case map_of (map (\<lambda>(c, s). (s, c)) tbl) s of
               None \<Rightarrow> Inl (OtherException ''DecodeError'')
             | Some c \<Rightarrow> Inr c)\<rparr>"

definition table_loads :: "(string \<times> json) list \<Rightarrow> string \<Rightarrow> exc + json" where
  "table_loads tbl s =
     (case map_of tbl s of None \<Rightarrow> Inl (OtherException ''ValueError'') | Some j \<Rightarrow> Inr j)"

definition nth_chunk :: "string list \<Rightarrow> 'cb event list \<Rightarrow> string" where
  "nth_chunk chunks tr =
     (let n = length (filter (\<lambda>e. e = Call gw_fd_read) tr)
      in if 0 < n \<and> n \<le> length chunks then chunks ! (n - 1) else [])"

definition table_world ::
  "(Container \<times> string) list \<Rightarrow> (string \<times> json) list \<Rightarrow> ('cb event list \<Rightarrow> exc option) \<Rightarrow>
   string list \<Rightarrow> 'cb world" where
  "table_world frames bodies rs chunks =
     \<lparr>pb = table_pb frames, json_loads = table_loads bodies, STATUS_SUCCESS = 0,
      raises = rs, read_result = nth_chunk chunks, urandom_result = (\<lambda>tr i. CHR 0xAB)\<rparr>"

definition quiet_world ::
  "(Container \<times> string) list \<Rightarrow> (string \<times> json) list \<Rightarrow> string list \<Rightarrow> nat world" where
  "quiet_world frames bodies chunks = table_world frames bodies (\<lambda>tr. None) chunks"

definition connected_mgr :: "(string \<rightharpoonup> 'cb) \<Rightarrow> 'cb GatewayMgr" where
  "connected_mgr tbl =
     \<lparr>gw_fd_raw = Some 1, gw_fd = Some 3, callback_tbl = tbl, send_queue = [], trace = []\<rparr>"

text \<open>
  Frames to run the model on: a server-class frame that the dispatcher ignores, and a
  client-class frame whose body is the empty JSON object. \<open>wire5\<close> frames a serialised
  container of five octets.
\<close>

definition plain_frame :: Container where
  "plain_frame = \<lparr>SID = ''S1'', RID = [], MID = ''m1'', STIME = 0, TYPE' = MSG_SERVER, BODY = []\<rparr>"

definition untyped_frame :: Container where
  "untyped_frame =
     \<lparr>SID = ''S1'', RID = [], MID = ''m2'', STIME = 0, TYPE' = MSG_CLIENT, BODY = ''{}''\<rparr>"

definition wire5 :: "string \<Rightarrow> string" where
  "wire5 raw = [CHR 0x00, CHR 0x00, CHR 0x00, CHR 0x05] @ raw"

text \<open>
  A receipt for the message id \<open>PSHabc\<close> and an offline event of the sender \<open>S1\<close>, with
  the bodies a JSON parser gives for them.
\<close>

definition receipt_frame :: Container where
  "receipt_frame =
     \<lparr>SID = ''S1'', RID = ''00000001'', MID = ''m3'', STIME = 0,
      TYPE' = MSG_CLIENT OR MSG_RECEIPT, BODY = ''receipt PSHabc''\<rparr>"

definition receipt_body :: json where
  "receipt_body = JObject [(''type'', JString ''receipt''), (''mid'', JString ''PSHabc'')]"

definition offline_frame :: Container where
  "offline_frame =
     \<lparr>SID = ''S1'', RID = [], MID = ''m4'', STIME = 0, TYPE' = MSG_EVENT, BODY = ''offline''\<rparr>"

definition offline_body :: json where
  "offline_body = JObject [(''type'', JString ''offline'')]"

text \<open>
  Worlds in which something fails: every write raises \<open>socket.error\<close>; the presence
  store raises \<open>InconsistentError\<close> on removal.
\<close>

definition broken_pipe_world :: "nat world" where
  "broken_pipe_world =
     table_world [] []
       (\<lambda>tr. if tr \<noteq> [] \<and> is_write (last tr) then Some socket_error else None) []"

definition inconsistent_store_world :: "nat world" where
  "inconsistent_store_world =
     table_world [] [(''offline'', offline_body)]
       (\<lambda>tr. if tr \<noteq> [] \<and> last tr = Call (delToOnlineTable ''S1'')
             then Some (InconsistentError ''no such row'') else None) []"

text \<open>
  A codec that knows three containers addressed to the receiver \<open>u1\<close>, which differ in
  their message id only, and a bundle for \<open>send_push\<close> with the message number 42.
\<close>

definition push_frames :: "(Container \<times> string) list" where
  "push_frames =
     [(new_Container ''u1'' (MSG_CLIENT OR MSG_RECEIPT) ''hi'' ''PSHabc'', ''hello''),
      (new_Container ''u1'' (MSG_CLIENT OR MSG_RECEIPT) ''hi'' ''abc'', ''plain''),
      (new_Container ''u1'' (MSG_CLIENT OR MSG_RECEIPT) ''hi'' ''PSH     42-u1'', ''world'')]"

definition push_bundle :: "nat MessageObj" where
  "push_bundle = \<lparr>guid = ''u1'', payload = ''hi'', msgid = ''42'', callback = Some 7\<rparr>"

text \<open>
  A client-class frame with no body at all, and a world in which the gateway has gone
  away: every write and every \<open>connect\<close> of a socket raises \<open>socket.error\<close>.
\<close>

definition bodyless_frame :: Container where
  "bodyless_frame =
     \<lparr>SID = ''S1'', RID = [], MID = ''m5'', STIME = 0, TYPE' = MSG_CLIENT, BODY = []\<rparr>"

definition gateway_down_world :: "nat world" where
  "gateway_down_world =
     table_world [] []
       (\<lambda>tr. if tr \<noteq> [] \<and> (is_write (last tr) \<or> last tr = Call socket_connect)
             then Some socket_error else None) []"

section \<open>The frame codec\<close>

lemma be32_digits:
  fixes n :: nat
  assumes "n < 2 ^ 32"
  shows "n div 2 ^ 24 mod 256 * 2 ^ 24 + n div 2 ^ 16 mod 256 * 2 ^ 16 + n div 2 ^ 8 mod 256 * 2 ^ 8 + n mod 256 = n"
proof -
  define a where "a = n div 256"
  define b where "b = a div 256"
  define c where "c = b div 256"
  have n: "n = a * 256 + n mod 256" by (simp add: a_def)
  have a: "a = b * 256 + a mod 256" by (simp add: b_def)
  have b: "b = c * 256 + b mod 256" by (simp add: c_def)
  have b': "n div 65536 = b"
    using div_mult2_eq [of n 256 256] by (simp add: a_def b_def)
  have c': "n div 16777216 = c"
    using div_mult2_eq [of n 65536 256] b' by (simp add: c_def)
  have "c < 256" using assms c' by simp
  then have c: "c mod 256 = c" by simp
  have "c * 2 ^ 24 + (b mod 256) * 2 ^ 16 + (a mod 256) * 2 ^ 8 + n mod 256 = n"
    using n a b by simp
  then show ?thesis by (simp add: b' c' c a_def [symmetric] del: of_nat_numeral)
qed

lemma struct_unpack_pack:
  assumes "n < 2 ^ 32"
  shows "\<exists>p. struct_pack_I n = Inr p \<and> length p = 4 \<and> struct_unpack_I p = Inr n"
proof -
  let ?p = "[char_of (n div 2 ^ 24), char_of (n div 2 ^ 16), char_of (n div 2 ^ 8), char_of n] :: string"
  have "struct_pack_I n = Inr ?p" using assms by (simp add: struct_pack_I_def)
  moreover have "struct_unpack_I ?p = Inr n"
    unfolding struct_unpack_I_def using be32_digits [OF assms] assms by simp
  ultimately show ?thesis by simp
qed

lemma Pack_framed:
  assumes "SerializeToString cd f = Inr raw" and "length raw \<le> MAX_PACKET_LENGTH"
  shows "\<exists>p. Pack cd f = Inr (p @ raw) \<and> length p = 4 \<and> struct_unpack_I p = Inr (length raw)"
proof -
  have "length raw < 2 ^ 32" using assms(2) by (simp add: MAX_PACKET_LENGTH_def)
  from struct_unpack_pack [OF this] obtain p where
    "struct_pack_I (length raw) = Inr p" "length p = 4" "struct_unpack_I p = Inr (length raw)" by blast
  then show ?thesis using assms(1) by (simp add: Pack_def)
qed

lemma Pack_Inr_framed:
  assumes "Pack cd f = Inr b"
  shows "\<exists>p raw. b = p @ raw \<and> length p = 4 \<and> struct_unpack_I p = Inr (length raw)"
proof -
  from assms obtain raw p where raw: "SerializeToString cd f = Inr raw"
    and p: "struct_pack_I (length raw) = Inr p" and b: "b = p @ raw"
    by (auto simp: Pack_def split: sum.splits)
  from p have lt: "length raw < 2 ^ 32" by (auto simp: struct_pack_I_def split: if_splits)
  from struct_unpack_pack [OF lt] p have "length p = 4 \<and> struct_unpack_I p = Inr (length raw)" by auto
  with b show ?thesis by blast
qed

lemma UnPack_framed:
  assumes "length p = 4" and "struct_unpack_I p = Inr (length raw)" and "length raw \<le> MAX_PACKET_LENGTH"
  shows "UnPack cd (p @ raw @ rest) = ParseFromString cd raw"
  using assms by (simp add: UnPack_def)

lemma UnPack_truncated:
  assumes "length p = 4" and "struct_unpack_I p = Inr (length raw)" and "length raw \<le> MAX_PACKET_LENGTH"
    and "k < 4 + length raw"
  shows "UnPack cd (take k (p @ raw)) =
     Inl (DataNeededError (if k < 4 then ''At least 4 octets'' else ''Need more data''))"
  using assms by (auto simp: UnPack_def min_def)

lemma char_of_eq: "n mod 256 = of_char c \<Longrightarrow> char_of (n::nat) = c"
  by (metis char_of_mod_256 char_of_char)

lemma struct_pack_I_5:
  "struct_pack_I (Suc (Suc (Suc (Suc (Suc 0))))) = Inr [CHR 0x00, CHR 0x00, CHR 0x00, CHR 0x05]"
proof -
  have "struct_pack_I 5 = Inr [CHR 0x00, CHR 0x00, CHR 0x00, CHR 0x05]"
    by (simp add: struct_pack_I_def char_of_eq)
  then show ?thesis by (simp add: eval_nat_numeral)
qed

lemma Pack_plain_frame:
  "Pack (table_pb [(plain_frame, ''hello'')]) plain_frame = Inr (wire5 ''hello'')"
  by (simp add: Pack_def table_pb_def struct_pack_I_5 wire5_def)

text \<open>
  C6. A buffer that starts with a length prefix above \<open>MAX_PACKET_LENGTH\<close> makes \<open>UnPack\<close>
  raise \<open>MaxLengthError\<close>, whatever follows the prefix and however short the rest is.
\<close>

theorem UnPack_oversize:
  assumes "data = a # b # c # d # rest"
    and "MAX_PACKET_LENGTH < of_char a * 2 ^ 24 + of_char b * 2 ^ 16 + of_char c * 2 ^ 8 + of_char d"
  shows "UnPack cd data = Inl (MaxLengthError [])"
  using assms by (simp add: UnPack_def struct_unpack_I_def)

theorem UnPack_oversize_witness:
  "MAX_PACKET_LENGTH < of_char (CHR 0x00) * 2 ^ 24 + of_char (CHR 0x10) * 2 ^ 16
       + of_char (CHR 0x00) * 2 ^ 8 + of_char (CHR 0x01)
   \<and> UnPack (table_pb []) [CHR 0x00, CHR 0x10, CHR 0x00, CHR 0x01, CHR ''x'']
       = Inl (MaxLengthError [])"
  using UnPack_oversize [where data = "[CHR 0x00, CHR 0x10, CHR 0x00, CHR 0x01, CHR ''x'']"
      and a = "CHR 0x00" and b = "CHR 0x10" and c = "CHR 0x00" and d = "CHR 0x01"
      and rest = "[CHR ''x'']" and cd = "table_pb []"]
  by (simp add: MAX_PACKET_LENGTH_def)

text \<open>
  C1. When the schema codec parses what it serialised and the serialised frame is within
  \<open>MAX_PACKET_LENGTH\<close>, \<open>Pack\<close> yields the four octets of the length followed by the
  serialised frame, \<open>UnPack\<close> of that gives the frame back, and octets after these
  \<open>4 + len\<close> are not looked at.
\<close>

theorem UnPack_Pack:
  assumes "SerializeToString cd f = Inr raw" and "ParseFromString cd raw = Inr f"
    and "length raw \<le> MAX_PACKET_LENGTH"
  shows "\<exists>p. Pack cd f = Inr (p @ raw) \<and> length p = 4 \<and> UnPack cd (p @ raw) = Inr f
     \<and> (\<forall>rest. UnPack cd (p @ raw @ rest) = Inr f)"
proof -
  from Pack_framed [OF assms(1,3)] obtain p where
    p: "Pack cd f = Inr (p @ raw)" "length p = 4" "struct_unpack_I p = Inr (length raw)" by blast
  have "UnPack cd (p @ raw @ rest) = Inr f" for rest
    using UnPack_framed [OF p(2,3) assms(3)] assms(2) by simp
  from this [of "[]"] this p show ?thesis by auto
qed

theorem UnPack_Pack_witness:
  "SerializeToString (table_pb [(plain_frame, ''hello'')]) plain_frame = Inr ''hello''
   \<and> ParseFromString (table_pb [(plain_frame, ''hello'')]) ''hello'' = Inr plain_frame
   \<and> length ''hello'' \<le> MAX_PACKET_LENGTH
   \<and> (\<exists>p. Pack (table_pb [(plain_frame, ''hello'')]) plain_frame = Inr (p @ ''hello'') \<and> length p = 4
        \<and> UnPack (table_pb [(plain_frame, ''hello'')]) (p @ ''hello'') = Inr plain_frame
        \<and> (\<forall>rest. UnPack (table_pb [(plain_frame, ''hello'')]) (p @ ''hello'' @ rest) = Inr plain_frame))"
  using UnPack_Pack [of "table_pb [(plain_frame, ''hello'')]" plain_frame "''hello''"]
  by (simp add: table_pb_def MAX_PACKET_LENGTH_def)

section \<open>The receive loop\<close>

text \<open>
  A round of \<open>_recv\<close> on a connected manager whose wait and read return: the buffer
  after the read decides the rest.
\<close>

lemma recv_round_decode:
  assumes "gw_fd st \<noteq> None"
    and "raises w (trace st @ [Call wait_read]) = None"
    and "raises w (trace st @ [Call wait_read, Call gw_fd_read]) = None"
    and "buf1 = buf @ read_result w (trace (after_read st))"
  shows "recv_round w buf st =
     (if buf1 = [] then (Continue, buf1, after_read st)
      else
        (case UnPack (pb w) buf1 of
           Inl e \<Rightarrow>
             if is_DataNeededError e then (Continue, buf1, after_read st)
             else (Propagate e, buf1, after_read st)
         | Inr msg \<Rightarrow>
             (case resp_handler w msg (after_read st) of
                (Some e, st3) \<Rightarrow>
                  if e = KeyboardInterrupt then (Break, [], st3) else (Propagate e, [], st3)
              | (None, st3) \<Rightarrow> (Continue, [], st3))))"
  using assms by (auto simp: recv_round_def ext_def after_read_def Let_def split: sum.splits)


text \<open>
  C7. Every proper prefix of an encoded frame whose length is within the maximum makes
  \<open>UnPack\<close> raise \<open>DataNeededError\<close>; \<open>UnPack\<close> returns nothing but the exception, and the
  round of the receive loop that meets it continues with the buffer as it was after the
  read, no octet taken from it.
\<close>

theorem UnPack_prefix:
  assumes "Pack cd f = Inr b" and "length b \<le> 4 + MAX_PACKET_LENGTH" and "k < length b"
  shows "UnPack cd (take k b) =
           Inl (DataNeededError (if k < 4 then ''At least 4 octets'' else ''Need more data''))
       \<and> (\<forall>w buf st. pb w = cd \<and> gw_fd st \<noteq> None
             \<and> raises w (trace st @ [Call wait_read]) = None
             \<and> raises w (trace st @ [Call wait_read, Call gw_fd_read]) = None
             \<and> buf @ read_result w (trace (after_read st)) = take k b
           \<longrightarrow> recv_round w buf st = (Continue, take k b, after_read st))"
proof -
  from Pack_Inr_framed [OF assms(1)] obtain p raw where
    b: "b = p @ raw" and p: "length p = 4" "struct_unpack_I p = Inr (length raw)" by blast
  have "length raw \<le> MAX_PACKET_LENGTH" using assms(2) b p by simp
  moreover have "k < 4 + length raw" using assms(3) b p by simp
  ultimately have u: "UnPack cd (take k b) =
           Inl (DataNeededError (if k < 4 then ''At least 4 octets'' else ''Need more data''))"
    unfolding b using p by (rule_tac UnPack_truncated)
  have "recv_round w buf st = (Continue, take k b, after_read st)"
    if "pb w = cd" "gw_fd st \<noteq> None" "raises w (trace st @ [Call wait_read]) = None"
      "raises w (trace st @ [Call wait_read, Call gw_fd_read]) = None"
      "buf @ read_result w (trace (after_read st)) = take k b" for w :: "'c world" and buf st
    using u that(1) recv_round_decode [OF that(2-4) that(5) [symmetric]] by simp
  with u show ?thesis by blast
qed

theorem UnPack_prefix_witness:
  "Pack (table_pb [(plain_frame, ''hello'')]) plain_frame = Inr (wire5 ''hello'')
   \<and> length (wire5 ''hello'') \<le> 4 + MAX_PACKET_LENGTH \<and> 6 < length (wire5 ''hello'')
   \<and> UnPack (table_pb [(plain_frame, ''hello'')]) (take 6 (wire5 ''hello''))
       = Inl (DataNeededError ''Need more data'')
   \<and> recv_round (quiet_world [(plain_frame, ''hello'')] [] [take 6 (wire5 ''hello'')]) []
         (connected_mgr Map.empty)
       = (Continue, take 6 (wire5 ''hello''), after_read (connected_mgr Map.empty))"
proof -
  have h: "Pack (table_pb [(plain_frame, ''hello'')]) plain_frame = Inr (wire5 ''hello'')"
    by (rule Pack_plain_frame)
  have l: "length (wire5 ''hello'') \<le> 4 + MAX_PACKET_LENGTH" "6 < length (wire5 ''hello'')"
    by (simp_all add: wire5_def MAX_PACKET_LENGTH_def)
  have "UnPack (table_pb [(plain_frame, ''hello'')]) (take 6 (wire5 ''hello''))
       = Inl (DataNeededError ''Need more data'')"
    using UnPack_prefix [OF h l, THEN conjunct1] by simp
  moreover have "recv_round (quiet_world [(plain_frame, ''hello'')] [] [take 6 (wire5 ''hello'')]) []
         (connected_mgr Map.empty)
       = (Continue, take 6 (wire5 ''hello''), after_read (connected_mgr Map.empty))"
    by (rule UnPack_prefix [OF h l, THEN conjunct2, rule_format])
       (simp add: quiet_world_def table_world_def connected_mgr_def after_read_def nth_chunk_def)
  ultimately show ?thesis using h l by simp
qed



text \<open>
  Rounds on a frame that the dispatcher cannot handle: a client-class frame whose body
  is the empty JSON object, alone and followed by a well-formed frame, and a client-class
  frame without a body.
\<close>

lemma recv_round_untyped:
  "recv_round (quiet_world [(untyped_frame, ''BAD!!'')] [(''{}'', JObject [])] [wire5 ''BAD!!'']) []
       (connected_mgr Map.empty)
     = (Propagate (KeyError ''type''), [], after_read (connected_mgr Map.empty))"
  by (simp add: recv_round_def ext_def connected_mgr_def quiet_world_def
      table_world_def nth_chunk_def after_read_def
      UnPack_def table_pb_def struct_unpack_I_def wire5_def MAX_PACKET_LENGTH_def
      resp_handler_def load_body_def table_loads_def untyped_frame_def MSG_CLIENT_def)

lemma recv_round_untyped_then_plain:
  "recv_round (quiet_world [(untyped_frame, ''BAD!!''), (plain_frame, ''hello'')] [(''{}'', JObject [])]
       [wire5 ''BAD!!'', wire5 ''hello'']) [] (connected_mgr Map.empty)
     = (Propagate (KeyError ''type''), [], after_read (connected_mgr Map.empty))"
  by (simp add: recv_round_def ext_def connected_mgr_def quiet_world_def
      table_world_def nth_chunk_def after_read_def
      UnPack_def table_pb_def struct_unpack_I_def wire5_def MAX_PACKET_LENGTH_def
      resp_handler_def load_body_def table_loads_def untyped_frame_def plain_frame_def MSG_CLIENT_def)

lemma recv_round_bodyless:
  "recv_round (quiet_world [(bodyless_frame, ''EMPTY'')] [] [wire5 ''EMPTY'']) []
       (connected_mgr Map.empty)
     = (Propagate (KeyError ''type''), [], after_read (connected_mgr Map.empty))"
  by (simp add: recv_round_def ext_def connected_mgr_def quiet_world_def
      table_world_def nth_chunk_def after_read_def
      UnPack_def table_pb_def struct_unpack_I_def wire5_def MAX_PACKET_LENGTH_def
      resp_handler_def load_body_def bodyless_frame_def MSG_CLIENT_def)

lemma recv_Propagate:
  "recv_round w buf st = (Propagate e, buf1, st1) \<Longrightarrow> recv (Suc n) w buf st = (Some (Some e), st1)"
  by simp

text \<open>
  C4. The receive loop does not contain the errors of the dispatcher. A client-class
  frame whose body is the empty JSON object, or that has no body (the dispatcher then
  takes \<open>{}\<close> for it), makes \<open>msg_body['type']\<close> raise \<open>KeyError\<close>. The
  \<open>except KeyboardInterrupt\<close> around the call does not catch it, so the error leaves
  \<open>_recv\<close>: the loop ends in its first round, and the well-formed frame that the gateway
  sends next is never read, however many rounds the loop is given.
\<close>

theorem recv_loop_killed_by_bad_frame:
  "fst (recv 1 (quiet_world [(untyped_frame, ''BAD!!'')] [(''{}'', JObject [])] [wire5 ''BAD!!'']) []
         (connected_mgr Map.empty))
     = Some (Some (KeyError ''type''))
   \<and> fst (recv 1 (quiet_world [(bodyless_frame, ''EMPTY'')] [] [wire5 ''EMPTY'']) []
         (connected_mgr Map.empty))
     = Some (Some (KeyError ''type''))
   \<and> recv 8 (quiet_world [(untyped_frame, ''BAD!!''), (plain_frame, ''hello'')] [(''{}'', JObject [])]
         [wire5 ''BAD!!'', wire5 ''hello'']) [] (connected_mgr Map.empty)
     = (Some (Some (KeyError ''type'')), after_read (connected_mgr Map.empty))"
  using recv_Propagate [OF recv_round_untyped, of 0] recv_Propagate [OF recv_round_bodyless, of 0]
    recv_Propagate [OF recv_round_untyped_then_plain, of 7]
  by simp

section \<open>The response dispatcher\<close>

text \<open>What \<open>_resp_handler\<close> does with a receipt that names the message id \<open>M\<close>.\<close>

lemma resp_handler_receipt:
  assumes "TYPE' msg AND MSG_CLIENT \<noteq> 0"
    and "load_body w msg = Inr body"
    and "getitem body ''type'' = Inr (JString ''receipt'')"
    and "getitem body ''mid'' = Inr (JString M)"
  shows "resp_handler w msg st =
     (let st1 = logger log_debug (Confirmed (SID msg) (JString M)) st in
      case callback_tbl st M of
        None \<Rightarrow> (None, st1)
      | Some f \<Rightarrow>
          (case ext w (func f (STATUS_SUCCESS w)) (st1\<lparr>callback_tbl := (callback_tbl st)(M := None)\<rparr>) of
             (None, st2) \<Rightarrow> (None, st2)
           | (Some e, st2) \<Rightarrow>
               if e = KeyboardInterrupt then (Some KeyboardInterrupt, st2)
               else if is_Exception e
               then (None, st2\<lparr>trace := trace st2 @ [Log log_error (Got_in_callback e), print_exc]\<rparr>)
               else (Some e, st2)))"
  using assms
  by (auto simp: resp_handler_def resp_receipt_def logger_def Let_def split: option.splits prod.splits)

lemma receipt_frame_hyps:
  "TYPE' receipt_frame AND MSG_CLIENT \<noteq> 0"
  "load_body (quiet_world [] [(''receipt PSHabc'', receipt_body)] []) receipt_frame = Inr receipt_body"
  "getitem receipt_body ''type'' = Inr (JString ''receipt'')"
  "getitem receipt_body ''mid'' = Inr (JString ''PSHabc'')"
  by (simp_all add: receipt_frame_def receipt_body_def load_body_def quiet_world_def table_world_def
      table_loads_def MSG_CLIENT_def MSG_RECEIPT_def)

text \<open>
  C2. With a callback registered under \<open>M\<close>, two client-class receipts for \<open>M\<close> dispatched
  one after the other invoke the callback once, with the success status: the first
  dispatch invokes it and removes the entry, the second invokes nothing.
\<close>

theorem receipt_callback_once:
  assumes "callback_tbl st M = Some cb"
    and "TYPE' m1 AND MSG_CLIENT \<noteq> 0" and "load_body w m1 = Inr b1"
    and "getitem b1 ''type'' = Inr (JString ''receipt'')" and "getitem b1 ''mid'' = Inr (JString M)"
    and "TYPE' m2 AND MSG_CLIENT \<noteq> 0" and "load_body w m2 = Inr b2"
    and "getitem b2 ''type'' = Inr (JString ''receipt'')" and "getitem b2 ''mid'' = Inr (JString M)"
    and "resp_handler w m1 st = (r1, st1)" and "resp_handler w m2 st1 = (r2, st2)"
  shows "filter is_invocation (trace st1) =
           filter is_invocation (trace st) @ [Call (func cb (STATUS_SUCCESS w))]
       \<and> callback_tbl st1 M = None
       \<and> filter is_invocation (trace st2) = filter is_invocation (trace st1)
       \<and> r2 = None"
proof -
  have 1: "filter is_invocation (trace st1) =
           filter is_invocation (trace st) @ [Call (func cb (STATUS_SUCCESS w))]
       \<and> callback_tbl st1 M = None"
    using assms(1,10) unfolding resp_handler_receipt [OF assms(2-5)]
    by (auto simp: logger_def ext_def Let_def split: option.splits if_splits)
  then have "callback_tbl st1 M = None" by simp
  then have "filter is_invocation (trace st2) = filter is_invocation (trace st1) \<and> r2 = None"
    using assms(11) unfolding resp_handler_receipt [OF assms(6-9)]
    by (auto simp: logger_def Let_def)
  with 1 show ?thesis by simp
qed

theorem receipt_callback_once_witness:
  "filter is_invocation
     (trace (snd (resp_handler (quiet_world [] [(''receipt PSHabc'', receipt_body)] []) receipt_frame
        (snd (resp_handler (quiet_world [] [(''receipt PSHabc'', receipt_body)] []) receipt_frame
           (connected_mgr [''PSHabc'' \<mapsto> 7]))))))
     = [Call (func 7 0)]
   \<and> callback_tbl (snd (resp_handler (quiet_world [] [(''receipt PSHabc'', receipt_body)] [])
         receipt_frame (connected_mgr [''PSHabc'' \<mapsto> 7]))) ''PSHabc'' = None"
proof -
  let ?w = "quiet_world [] [(''receipt PSHabc'', receipt_body)] []"
  let ?st = "connected_mgr [''PSHabc'' \<mapsto> 7] :: nat GatewayMgr"
  have c: "callback_tbl ?st ''PSHabc'' = Some 7" by (simp add: connected_mgr_def)
  have s: "STATUS_SUCCESS ?w = 0" "trace ?st = []"
    by (simp_all add: quiet_world_def table_world_def connected_mgr_def)
  show ?thesis
    using receipt_callback_once [OF c receipt_frame_hyps receipt_frame_hyps
        prod.collapse [symmetric] prod.collapse [symmetric]] s
    by simp
qed

text \<open>What \<open>_resp_handler\<close> does with an offline event, by the answers of the world.\<close>

lemma resp_handler_offline:
  assumes "TYPE' msg AND MSG_CLIENT = 0" and "TYPE' msg AND MSG_EVENT \<noteq> 0"
    and "load_body w msg = Inr body"
    and "getitem body ''type'' = Inr (JString ''offline'')"
  shows "resp_handler w msg st =
     (case raises w (trace st @ [Call mysql]) of
        Some e \<Rightarrow> (Some e, st\<lparr>trace := trace st @ [Call mysql]\<rparr>)
      | None \<Rightarrow>
         (case raises w (trace st @ [Call mysql, Log log_debug (Now_offline (SID msg)),
                  Call (delToOnlineTable (SID msg))]) of
            Some e \<Rightarrow>
              if is_InconsistentError e
              then (None, st\<lparr>trace := trace st @ [Call mysql, Log log_debug (Now_offline (SID msg)),
                  Call (delToOnlineTable (SID msg)), Log log_warning (Error_setting_offline (SID msg) e)]\<rparr>)
              else (Some e, st\<lparr>trace := trace st @ [Call mysql, Log log_debug (Now_offline (SID msg)),
                  Call (delToOnlineTable (SID msg))]\<rparr>)
          | None \<Rightarrow>
             (case raises w (trace st @ [Call mysql, Log log_debug (Now_offline (SID msg)),
                  Call (delToOnlineTable (SID msg)), Call (offline_callback (SID msg))]) of
                Some e \<Rightarrow>
                  if is_InconsistentError e
                  then (None, st\<lparr>trace := trace st @ [Call mysql, Log log_debug (Now_offline (SID msg)),
                      Call (delToOnlineTable (SID msg)), Call (offline_callback (SID msg)),
                      Log log_warning (Error_setting_offline (SID msg) e)]\<rparr>)
                  else (Some e, st\<lparr>trace := trace st @ [Call mysql, Log log_debug (Now_offline (SID msg)),
                      Call (delToOnlineTable (SID msg)), Call (offline_callback (SID msg))]\<rparr>)
              | None \<Rightarrow> (None, st\<lparr>trace := trace st @ [Call mysql, Log log_debug (Now_offline (SID msg)),
                      Call (delToOnlineTable (SID msg)), Call (offline_callback (SID msg))]\<rparr>))))"
  using assms
  by (auto simp: resp_handler_def resp_event_def logger_def ext_def Let_def split: option.splits)

lemma offline_frame_hyps:
  "TYPE' offline_frame AND MSG_CLIENT = 0"
  "TYPE' offline_frame AND MSG_EVENT \<noteq> 0"
  "getitem offline_body ''type'' = Inr (JString ''offline'')"
  by (simp_all add: offline_frame_def offline_body_def MSG_CLIENT_def MSG_EVENT_def)

lemma offline_frame_body:
  "load_body (quiet_world [] [(''offline'', offline_body)] []) offline_frame = Inr offline_body"
  "load_body inconsistent_store_world offline_frame = Inr offline_body"
  by (simp_all add: offline_frame_def load_body_def quiet_world_def inconsistent_store_world_def
      table_world_def table_loads_def)

lemma resp_handler_offline_quiet:
  "resp_handler (quiet_world [] [(''offline'', offline_body)] []) offline_frame (connected_mgr Map.empty)
     = (None, (connected_mgr Map.empty)\<lparr>trace := [Call mysql, Log log_debug (Now_offline ''S1''),
          Call (delToOnlineTable ''S1''), Call (offline_callback ''S1'')]\<rparr>)"
  unfolding resp_handler_offline [OF offline_frame_hyps(1,2) offline_frame_body(1) offline_frame_hyps(3)]
  by (simp add: quiet_world_def table_world_def connected_mgr_def offline_frame_def)

lemma resp_handler_offline_inconsistent:
  "resp_handler inconsistent_store_world offline_frame (connected_mgr Map.empty)
     = (None, (connected_mgr Map.empty)\<lparr>trace := [Call mysql, Log log_debug (Now_offline ''S1''),
          Call (delToOnlineTable ''S1''),
          Log log_warning (Error_setting_offline ''S1'' (InconsistentError ''no such row''))]\<rparr>)"
  unfolding resp_handler_offline [OF offline_frame_hyps(1,2) offline_frame_body(2) offline_frame_hyps(3)]
  by (simp add: inconsistent_store_world_def table_world_def connected_mgr_def offline_frame_def)

text \<open>
  C9. Dispatching a server-class frame with the event bit and body type \<open>offline\<close> from
  sender \<open>S\<close>: the offline callback is never invoked before the removal from the presence
  store; the removal is invoked with \<open>S\<close> once the store object exists, and the callback
  with \<open>S\<close> after it once the removal has returned.
\<close>

theorem offline_removal_first:
  assumes "TYPE' msg AND MSG_CLIENT = 0" and "TYPE' msg AND MSG_EVENT \<noteq> 0"
    and "load_body w msg = Inr body"
    and "getitem body ''type'' = Inr (JString ''offline'')"
    and "resp_handler w msg st = (r, st')"
  shows "\<exists>evs. trace st' = trace st @ evs
     \<and> precedes (Call (delToOnlineTable (SID msg))) (Call (offline_callback (SID msg))) evs
     \<and> (raises w (trace st @ [Call mysql]) = None \<longrightarrow> Call (delToOnlineTable (SID msg)) \<in> set evs)
     \<and> (raises w (trace st @ [Call mysql]) = None \<and>
        raises w (trace st @ [Call mysql, Log log_debug (Now_offline (SID msg)),
                  Call (delToOnlineTable (SID msg))]) = None
          \<longrightarrow> Call (offline_callback (SID msg)) \<in> set evs)"
  using assms(5) unfolding resp_handler_offline [OF assms(1-4)]
  by (auto split: option.splits if_splits)

theorem offline_removal_first_witness:
  "precedes (Call (delToOnlineTable ''S1'')) (Call (offline_callback ''S1''))
     ([Call mysql, Log log_debug (Now_offline ''S1''), Call (delToOnlineTable ''S1''),
       Call (offline_callback ''S1'')] :: nat event list)
   \<and> trace (snd (resp_handler (quiet_world [] [(''offline'', offline_body)] []) offline_frame
        (connected_mgr Map.empty)))
     = [Call mysql, Log log_debug (Now_offline ''S1''), Call (delToOnlineTable ''S1''),
        Call (offline_callback ''S1'')]"
proof -
  from offline_removal_first [OF offline_frame_hyps(1,2) offline_frame_body(1) offline_frame_hyps(3)
      resp_handler_offline_quiet]
  obtain evs :: "nat event list" where
    "[Call mysql, Log log_debug (Now_offline ''S1''), Call (delToOnlineTable ''S1''),
        Call (offline_callback ''S1'')] = trace (connected_mgr Map.empty) @ evs"
    "precedes (Call (delToOnlineTable (SID offline_frame))) (Call (offline_callback (SID offline_frame))) evs"
    by auto
  moreover have "SID offline_frame = ''S1''" "trace (connected_mgr Map.empty :: nat GatewayMgr) = []"
    by (simp_all add: offline_frame_def connected_mgr_def)
  ultimately show ?thesis
    by (simp add: resp_handler_offline_quiet)
qed

text \<open>
  C10. In the same dispatch the offline callback is invoked exactly when the store object
  was made and the removal returned; when the removal raises \<open>InconsistentError\<close> the
  dispatch returns normally after the removal and one warning, the callback not invoked.
\<close>

theorem offline_callback_skipped:
  assumes "TYPE' msg AND MSG_CLIENT = 0" and "TYPE' msg AND MSG_EVENT \<noteq> 0"
    and "load_body w msg = Inr body"
    and "getitem body ''type'' = Inr (JString ''offline'')"
    and "resp_handler w msg st = (r, st')"
  shows "\<exists>evs. trace st' = trace st @ evs
     \<and> (Call (offline_callback (SID msg)) \<in> set evs \<longleftrightarrow>
          raises w (trace st @ [Call mysql]) = None \<and>
          raises w (trace st @ [Call mysql, Log log_debug (Now_offline (SID msg)),
                  Call (delToOnlineTable (SID msg))]) = None)
     \<and> (\<forall>m. raises w (trace st @ [Call mysql]) = None \<and>
          raises w (trace st @ [Call mysql, Log log_debug (Now_offline (SID msg)),
                  Call (delToOnlineTable (SID msg))]) = Some (InconsistentError m)
          \<longrightarrow> r = None \<and> evs = [Call mysql, Log log_debug (Now_offline (SID msg)),
                  Call (delToOnlineTable (SID msg)),
                  Log log_warning (Error_setting_offline (SID msg) (InconsistentError m))])"
  using assms(5) unfolding resp_handler_offline [OF assms(1-4)]
  by (auto split: option.splits if_splits)

theorem offline_callback_skipped_witness:
  "Call (offline_callback ''S1'') \<notin>
     set (trace (snd (resp_handler inconsistent_store_world offline_frame (connected_mgr Map.empty))))
   \<and> raises inconsistent_store_world
        [Call mysql, Log log_debug (Now_offline ''S1''), Call (delToOnlineTable ''S1'')]
      = Some (InconsistentError ''no such row'')"
proof -
  have r: "raises inconsistent_store_world
        [Call mysql, Log log_debug (Now_offline ''S1''), Call (delToOnlineTable ''S1'')]
      = Some (InconsistentError ''no such row'')"
    by (simp add: inconsistent_store_world_def table_world_def)
  from offline_callback_skipped [OF offline_frame_hyps(1,2) offline_frame_body(2) offline_frame_hyps(3)
      resp_handler_offline_inconsistent]
  obtain evs :: "nat event list" where
    "trace ((connected_mgr Map.empty)\<lparr>trace := [Call mysql, Log log_debug (Now_offline ''S1''),
          Call (delToOnlineTable ''S1''),
          Log log_warning (Error_setting_offline ''S1'' (InconsistentError ''no such row''))]\<rparr>)
       = trace (connected_mgr Map.empty) @ evs"
    "Call (offline_callback (SID offline_frame)) \<in> set evs \<longleftrightarrow>
          raises inconsistent_store_world (trace (connected_mgr Map.empty) @ [Call mysql]) = None \<and>
          raises inconsistent_store_world (trace (connected_mgr Map.empty) @ [Call mysql,
             Log log_debug (Now_offline (SID offline_frame)),
             Call (delToOnlineTable (SID offline_frame))]) = None"
    by blast
  moreover have "SID offline_frame = ''S1''" "trace (connected_mgr Map.empty :: nat GatewayMgr) = []"
    by (simp_all add: offline_frame_def connected_mgr_def)
  ultimately have "Call (offline_callback ''S1'') \<notin> set evs"
    "trace (snd (resp_handler inconsistent_store_world offline_frame (connected_mgr Map.empty))) = evs"
    using r by (simp_all add: resp_handler_offline_inconsistent)
  with r show ?thesis by simp
qed

section \<open>Enqueueing and message ids\<close>

lemma ensure_connected:
  assumes "(if disconnected st then connect w st else (None, st)) = (r, st1)"
  shows "\<exists>evs. trace st1 = trace st @ evs \<and> filter is_write evs = [] \<and> filter is_Log evs = []
     \<and> send_queue st1 = send_queue st
     \<and> (disconnected st \<longrightarrow> evs \<noteq> [] \<and> hd evs = Call socket_socket)"
  using assms
  by (auto simp: connect_def ext_def Let_def split: if_splits option.splits)

lemma hexdigit_in: "hexdigit n \<in> set ''0123456789abcdef''"
proof -
  have "n mod 16 < length ''0123456789abcdef''" by simp
  then show ?thesis unfolding hexdigit_def by (rule nth_mem)
qed

lemma length_hexlify: "length (hexlify s) = 2 * length s"
  by (induction s) (simp_all add: hexlify_def)

lemma set_hexlify: "set (hexlify s) \<subseteq> set ''0123456789abcdef''"
  using hexdigit_in by (induction s) (simp_all add: hexlify_def)

lemma make_mid_cases:
  assumes "make_mid w mid st = (Inr m, st1)"
  shows "\<exists>m'. m = ''PSH'' @ m' \<and> send_queue st1 = send_queue st \<and> callback_tbl st1 = callback_tbl st
     \<and> (\<exists>evs. trace st1 = trace st @ evs \<and> filter is_write evs = [])
     \<and> (mid \<noteq> None \<and> mid \<noteq> Some [] \<longrightarrow> mid = Some m')
     \<and> (mid = None \<or> mid = Some [] \<longrightarrow> length m' = 18 \<and> set m' \<subseteq> set ''0123456789abcdef'')"
proof (cases "mid \<noteq> None \<and> mid \<noteq> Some []")
  case True
  with assms have "m = ''PSH'' @ the mid" "st1 = st" by (auto simp: make_mid_def)
  with True show ?thesis by (intro exI [of _ "the mid"]) auto
next
  case False
  let ?h = "hexlify (map (urandom_result w (trace st @ [Call (os_urandom 9)])) [0..<9])"
  from False assms have "m = ''PSH'' @ ?h" "st1 = st\<lparr>trace := trace st @ [Call (os_urandom 9)]\<rparr>"
    by (auto simp: make_mid_def ext_def Let_def split: option.splits if_splits)
  moreover have "length ?h = 18" by (simp add: length_hexlify)
  moreover have "set ?h \<subseteq> set ''0123456789abcdef''" by (rule set_hexlify)
  ultimately show ?thesis using False by (intro exI [of _ ?h]) auto
qed

lemma queued_send_enqueues:
  assumes "queued_send w rid msgtype body cb mid st = (None, st')"
  shows "\<exists>m'. enqueued_frame w (new_Container rid msgtype body (''PSH'' @ m')) st st'
     \<and> (\<exists>evs. trace st' = trace st @ evs \<and> filter is_write evs = [])
     \<and> (mid \<noteq> None \<and> mid \<noteq> Some [] \<longrightarrow> mid = Some m')
     \<and> (mid = None \<or> mid = Some [] \<longrightarrow> length m' = 18 \<and> set m' \<subseteq> set ''0123456789abcdef'')"
proof -
  from assms obtain m st1 data where
    mm: "make_mid w mid st = (Inr m, st1)"
    and pk: "Pack (pb w) (new_Container rid msgtype body m) = Inr data"
    and st': "send_queue st' = send_queue st1 @ [data]" "trace st' = trace st1"
    by (auto simp: queued_send_def Let_def split: prod.splits sum.splits option.splits)
  from make_mid_cases [OF mm] obtain m' evs where
    m': "m = ''PSH'' @ m'" "send_queue st1 = send_queue st"
      "trace st1 = trace st @ evs" "filter is_write evs = []"
      "mid \<noteq> None \<and> mid \<noteq> Some [] \<longrightarrow> mid = Some m'"
      "mid = None \<or> mid = Some [] \<longrightarrow> length m' = 18 \<and> set m' \<subseteq> set ''0123456789abcdef''"
    by blast
  have "enqueued_frame w (new_Container rid msgtype body (''PSH'' @ m')) st st'"
    using pk st' m'(1,2) by (simp add: enqueued_frame_def)
  with m' st'(2) show ?thesis by (intro exI [of _ m']) auto
qed

lemma queued_send_supplied:
  "queued_send (quiet_world push_frames [] []) ''u1'' (MSG_CLIENT OR MSG_RECEIPT) ''hi'' None
      (Some ''abc'') (connected_mgr Map.empty)
     = (None, (connected_mgr Map.empty)\<lparr>send_queue := [wire5 ''hello'']\<rparr>)"
  by (simp add: queued_send_def make_mid_def Pack_def quiet_world_def table_world_def table_pb_def
      push_frames_def new_Container_def struct_pack_I_5 wire5_def connected_mgr_def)

lemma send_push_bundle:
  "send_push (quiet_world push_frames [] []) push_bundle (connected_mgr Map.empty)
     = (None, (connected_mgr Map.empty)\<lparr>send_queue := [wire5 ''world''],
          callback_tbl := [''PSH     42-u1'' \<mapsto> 7]\<rparr>)"
  by (simp add: send_push_def disconnected_def queued_send_def make_mid_def Pack_def quiet_world_def
      table_world_def table_pb_def push_frames_def new_Container_def struct_pack_I_5 wire5_def
      connected_mgr_def push_bundle_def fmt_07s_def eval_nat_numeral)

text \<open>
  C8, as the code has it. Whenever \<open>_queued_send\<close> returns, the send queue has grown by
  the encoding of one container whose message id is \<open>PSH\<close> followed by the supplied id,
  if an id other than the empty string was supplied, and \<open>PSH\<close> followed by 18
  lower-case hexadecimal characters if no id or the empty string was supplied. The frame
  of \<open>send_push\<close> therefore carries \<open>PSH\<close>, the bundle's \<open>msgid\<close> right-justified in seven
  columns, a hyphen and the receiver's \<open>guid\<close>.
\<close>

theorem queued_send_message_id:
  "(queued_send w rid msgtype body cb mid st = (None, st') \<longrightarrow>
      (\<exists>m'. enqueued_frame w (new_Container rid msgtype body (''PSH'' @ m')) st st'
         \<and> (mid \<noteq> None \<and> mid \<noteq> Some [] \<longrightarrow> mid = Some m')
         \<and> (mid = None \<or> mid = Some [] \<longrightarrow> length m' = 18 \<and> set m' \<subseteq> set ''0123456789abcdef'')))
   \<and> (send_push w bundle st = (None, st') \<longrightarrow>
        enqueued_frame w
          (new_Container (guid bundle) (MSG_CLIENT OR MSG_RECEIPT) (payload bundle)
             (''PSH'' @ fmt_07s (msgid bundle) @ ''-'' @ guid bundle)) st st')"
proof (intro conjI impI)
  assume "queued_send w rid msgtype body cb mid st = (None, st')"
  from queued_send_enqueues [OF this]
  show "\<exists>m'. enqueued_frame w (new_Container rid msgtype body (''PSH'' @ m')) st st'
         \<and> (mid \<noteq> None \<and> mid \<noteq> Some [] \<longrightarrow> mid = Some m')
         \<and> (mid = None \<or> mid = Some [] \<longrightarrow> length m' = 18 \<and> set m' \<subseteq> set ''0123456789abcdef'')"
    by blast
next
  assume sp: "send_push w bundle st = (None, st')"
  obtain rc st1 where c: "(if disconnected st then connect w st else (None, st)) = (rc, st1)"
    by (cases "if disconnected st then connect w st else (None, st)") auto
  with sp have rc: "rc = None"
    and qs: "queued_send w (guid bundle) (MSG_CLIENT OR MSG_RECEIPT) (payload bundle)
            (callback bundle) (Some (fmt_07s (msgid bundle) @ ''-'' @ guid bundle)) st1 = (None, st')"
    by (auto simp: send_push_def split: option.splits)
  from queued_send_enqueues [OF qs] obtain m' where
    "enqueued_frame w (new_Container (guid bundle) (MSG_CLIENT OR MSG_RECEIPT) (payload bundle)
        (''PSH'' @ m')) st1 st'"
    "Some (fmt_07s (msgid bundle) @ ''-'' @ guid bundle) = Some m'"
    by auto
  moreover have "send_queue st1 = send_queue st" using ensure_connected [OF c] by auto
  ultimately show "enqueued_frame w
          (new_Container (guid bundle) (MSG_CLIENT OR MSG_RECEIPT) (payload bundle)
             (''PSH'' @ fmt_07s (msgid bundle) @ ''-'' @ guid bundle)) st st'"
    by (auto simp: enqueued_frame_def split: sum.splits)
qed

theorem queued_send_message_id_witness:
  "enqueued_frame (quiet_world push_frames [] [])
     (new_Container ''u1'' (MSG_CLIENT OR MSG_RECEIPT) ''hi'' ''PSHabc'') (connected_mgr Map.empty)
     (snd (queued_send (quiet_world push_frames [] []) ''u1'' (MSG_CLIENT OR MSG_RECEIPT) ''hi'' None
        (Some ''abc'') (connected_mgr Map.empty)))
   \<and> enqueued_frame (quiet_world push_frames [] [])
       (new_Container ''u1'' (MSG_CLIENT OR MSG_RECEIPT) ''hi'' ''PSH     42-u1'')
       (connected_mgr Map.empty)
       (snd (send_push (quiet_world push_frames [] []) push_bundle (connected_mgr Map.empty)))"
proof -
  from queued_send_message_id [THEN conjunct1, rule_format, OF queued_send_supplied]
  have "enqueued_frame (quiet_world push_frames [] [])
     (new_Container ''u1'' (MSG_CLIENT OR MSG_RECEIPT) ''hi'' ''PSHabc'') (connected_mgr Map.empty)
     ((connected_mgr Map.empty)\<lparr>send_queue := [wire5 ''hello'']\<rparr>)"
    by auto
  moreover from queued_send_message_id [THEN conjunct2, rule_format, OF send_push_bundle]
  have "enqueued_frame (quiet_world push_frames [] [])
       (new_Container ''u1'' (MSG_CLIENT OR MSG_RECEIPT) ''hi'' ''PSH     42-u1'')
       (connected_mgr Map.empty)
       ((connected_mgr Map.empty)\<lparr>send_queue := [wire5 ''world''],
          callback_tbl := [''PSH     42-u1'' \<mapsto> 7]\<rparr>)"
    by (simp add: push_bundle_def fmt_07s_def eval_nat_numeral)
  ultimately show ?thesis by (simp add: queued_send_supplied send_push_bundle)
qed

text \<open>
  C8, as the specification words it, fails. With the id \<open>abc\<close> supplied, the frame that
  \<open>_queued_send\<close> puts into the queue decodes to the container with the message id
  \<open>PSHabc\<close>; the queue does not hold the encoding of the container with the id \<open>abc\<close>.
\<close>

theorem queued_send_prefixes_supplied_id:
  "fst (queued_send (quiet_world push_frames [] []) ''u1'' (MSG_CLIENT OR MSG_RECEIPT) ''hi'' None
          (Some ''abc'') (connected_mgr Map.empty)) = None
   \<and> map (UnPack (pb (quiet_world push_frames [] [])))
        (send_queue (snd (queued_send (quiet_world push_frames [] []) ''u1''
           (MSG_CLIENT OR MSG_RECEIPT) ''hi'' None (Some ''abc'') (connected_mgr Map.empty))))
       = [Inr (new_Container ''u1'' (MSG_CLIENT OR MSG_RECEIPT) ''hi'' ''PSHabc'')]
   \<and> \<not> enqueued_frame (quiet_world push_frames [] [])
          (new_Container ''u1'' (MSG_CLIENT OR MSG_RECEIPT) ''hi'' ''abc'') (connected_mgr Map.empty)
          (snd (queued_send (quiet_world push_frames [] []) ''u1''
             (MSG_CLIENT OR MSG_RECEIPT) ''hi'' None (Some ''abc'') (connected_mgr Map.empty)))"
proof -
  have "UnPack (pb (quiet_world push_frames [] [])) (wire5 ''hello'')
      = Inr (new_Container ''u1'' (MSG_CLIENT OR MSG_RECEIPT) ''hi'' ''PSHabc'')"
    by (simp add: UnPack_def quiet_world_def table_world_def table_pb_def push_frames_def
        struct_unpack_I_def wire5_def MAX_PACKET_LENGTH_def)
  moreover have "Pack (pb (quiet_world push_frames [] []))
      (new_Container ''u1'' (MSG_CLIENT OR MSG_RECEIPT) ''hi'' ''abc'') = Inr (wire5 ''plain'')"
    by (simp add: Pack_def quiet_world_def table_world_def table_pb_def push_frames_def
        new_Container_def struct_pack_I_5 wire5_def)
  moreover have "wire5 ''hello'' \<noteq> wire5 ''plain''"
    by (simp add: wire5_def)
  ultimately show ?thesis
    by (simp add: queued_send_supplied enqueued_frame_def)
qed

section \<open>The send loop\<close>

lemma write_results_append:
  "write_results w pre (xs @ ys) = write_results w pre xs @ write_results w (pre @ xs) ys"
  by (induction xs arbitrary: pre) simp_all

lemma write_results_no_write:
  "filter is_write xs = [] \<Longrightarrow> write_results w pre xs = []"
  by (induction xs arbitrary: pre) (simp_all split: if_splits)

lemma send_attempts_trace:
  "send_attempts n w b st = (r, ok, st') \<Longrightarrow>
   \<exists>evs. trace st' = trace st @ evs \<and> send_queue st' = send_queue st \<and> filter is_Log evs = []
     \<and> length (write_results w (trace st) evs) \<le> n
     \<and> None \<notin> set (butlast (write_results w (trace st) evs))
     \<and> (ok \<longleftrightarrow> write_results w (trace st) evs \<noteq> [] \<and> last (write_results w (trace st) evs) = None)
     \<and> (ok \<longrightarrow> r = None \<and> evs \<noteq> [] \<and> last evs = Call (gw_fd_write b))
     \<and> (write_results w (trace st) evs = replicate n (Some socket_error) \<longrightarrow> r = None \<and> \<not> ok)
     \<and> (disconnected st \<and> 0 < n \<longrightarrow> evs \<noteq> [] \<and> hd evs = Call socket_socket)"
proof (induction n arbitrary: st r ok st')
  case 0
  then show ?case by simp
next
  case (Suc n)
  obtain rc st1 where c: "(if disconnected st then connect w st else (None, st)) = (rc, st1)"
    by (cases "if disconnected st then connect w st else (None, st)") auto
  from ensure_connected [OF c] obtain cevs where
    cevs: "trace st1 = trace st @ cevs" "filter is_write cevs = []" "filter is_Log cevs = []"
      "send_queue st1 = send_queue st"
      "disconnected st \<longrightarrow> cevs \<noteq> [] \<and> hd cevs = Call socket_socket"
    by blast
  have wr0: "write_results w (trace st) cevs = []"
    using cevs(2) by (rule write_results_no_write)
  show ?case
  proof (cases rc)
    case (Some e)
    with Suc.prems c have "r = Some e" "\<not> ok" "st' = st1" by auto
    with cevs wr0 show ?thesis by (intro exI [of _ cevs]) auto
  next
    case None
    note rc = None
    let ?tr = "trace st1 @ [Call (gw_fd_write b)]"
    show ?thesis
    proof (cases "raises w ?tr")
      case None
      with Suc.prems c rc have "r = None" "ok" "st' = st1\<lparr>trace := ?tr\<rparr>"
        by (auto simp: ext_def Let_def)
      with cevs wr0 None show ?thesis
        by (intro exI [of _ "cevs @ [Call (gw_fd_write b)]"])
           (auto simp: write_results_append)
    next
      case (Some e)
      note raised = Some
      show ?thesis
      proof (cases "e = socket_error")
        case False
        with Suc.prems c rc raised have "r = Some e" "\<not> ok" "st' = st1\<lparr>trace := ?tr\<rparr>"
          by (auto simp: ext_def Let_def)
        with cevs wr0 raised False show ?thesis
          by (intro exI [of _ "cevs @ [Call (gw_fd_write b)]"])
             (auto simp: write_results_append)
      next
        case True
        let ?st3 = "(snd (ext w gw_fd_raw_close (st1\<lparr>trace := ?tr\<rparr>)))\<lparr>gw_fd_raw := None, gw_fd := None\<rparr>"
        from Suc.prems c rc raised True have rec: "send_attempts n w b ?st3 = (r, ok, st')"
          by (auto simp: ext_def Let_def)
        have tr3: "trace ?st3 = trace st @ cevs @ [Call (gw_fd_write b), Call gw_fd_raw_close]"
          using cevs(1) by (simp add: ext_def Let_def)
        have q3: "send_queue ?st3 = send_queue st"
          using cevs(4) by (simp add: ext_def Let_def)
        from Suc.IH [OF rec] obtain evs where
          evs: "trace st' = trace ?st3 @ evs" "send_queue st' = send_queue ?st3" "filter is_Log evs = []"
            "length (write_results w (trace ?st3) evs) \<le> n"
            "None \<notin> set (butlast (write_results w (trace ?st3) evs))"
            "ok \<longleftrightarrow> write_results w (trace ?st3) evs \<noteq> [] \<and> last (write_results w (trace ?st3) evs) = None"
            "ok \<longrightarrow> r = None \<and> evs \<noteq> [] \<and> last evs = Call (gw_fd_write b)"
            "write_results w (trace ?st3) evs = replicate n (Some socket_error) \<longrightarrow> r = None \<and> \<not> ok"
          by blast
        let ?all = "cevs @ [Call (gw_fd_write b), Call gw_fd_raw_close] @ evs"
        have wr: "write_results w (trace st) ?all = Some socket_error # write_results w (trace ?st3) evs"
          using wr0 raised True cevs(1) tr3 by (simp add: write_results_append)
        have "trace st' = trace st @ ?all" using evs(1) tr3 by simp
        moreover have "send_queue st' = send_queue st" using evs(2) q3 by simp
        moreover have "filter is_Log ?all = []" using cevs(3) evs(3) by simp
        moreover have "length (write_results w (trace st) ?all) \<le> Suc n" using wr evs(4) by simp
        moreover have "None \<notin> set (butlast (write_results w (trace st) ?all))"
          using wr evs(5) by (auto simp: butlast.simps(2) split: if_splits)
        moreover have "ok \<longleftrightarrow> write_results w (trace st) ?all \<noteq> [] \<and> last (write_results w (trace st) ?all) = None"
          using wr evs(6) by auto
        moreover have "ok \<longrightarrow> r = None \<and> ?all \<noteq> [] \<and> last ?all = Call (gw_fd_write b)"
          using evs(7) by auto
        moreover have "write_results w (trace st) ?all = replicate (Suc n) (Some socket_error) \<longrightarrow> r = None \<and> \<not> ok"
          using wr evs(8) by simp
        moreover have "disconnected st \<and> 0 < Suc n \<longrightarrow> ?all \<noteq> [] \<and> hd ?all = Call socket_socket"
          using cevs(5) by auto
        ultimately show ?thesis by blast
      qed
    qed
  qed
qed

lemma send_item_trace:
  assumes "send_item w b st = (r, st')"
  shows "\<exists>evs. trace st' = trace st @ evs
     \<and> send_queue st' = send_queue st
     \<and> length (write_results w (trace st) evs) \<le> 2
     \<and> None \<notin> set (butlast (write_results w (trace st) evs))
     \<and> (disconnected st \<longrightarrow> evs \<noteq> [] \<and> hd evs = Call socket_socket)
     \<and> (write_results w (trace st) evs = [Some socket_error, Some socket_error] \<longrightarrow>
          r = None \<and> filter is_Log evs = [Log log_warn Failed_to_send_packet])"
proof -
  obtain ra ok st1 where a: "send_attempts 2 w b st = (ra, ok, st1)"
    by (cases "send_attempts 2 w b st") auto
  from send_attempts_trace [OF a] obtain evs where
    evs: "trace st1 = trace st @ evs" "send_queue st1 = send_queue st" "filter is_Log evs = []"
      "length (write_results w (trace st) evs) \<le> 2"
      "None \<notin> set (butlast (write_results w (trace st) evs))"
      "write_results w (trace st) evs = replicate 2 (Some socket_error) \<longrightarrow> ra = None \<and> \<not> ok"
      "disconnected st \<and> 0 < (2::nat) \<longrightarrow> evs \<noteq> [] \<and> hd evs = Call socket_socket"
    by blast
  have rep: "replicate 2 (Some socket_error) = [Some socket_error, Some socket_error]"
    by (simp add: numeral_2_eq_2)
  show ?thesis
  proof (cases "ra = None \<and> \<not> ok")
    case True
    with assms a have "r = None" "st' = logger log_warn Failed_to_send_packet st1"
      by (auto simp: send_item_def)
    with evs show ?thesis
      by (intro exI [of _ "evs @ [Log log_warn Failed_to_send_packet]"])
         (auto simp: logger_def write_results_append)
  next
    case False
    with assms a have "st' = st1" by (auto simp: send_item_def split: option.splits)
    with evs False rep show ?thesis by (intro exI [of _ evs]) auto
  qed
qed

text \<open>
  Two writes that raise \<open>socket.error\<close> with a reconnect that works in between: the item
  is dropped with one warning.
\<close>

lemma send_item_broken_pipe:
  "send_item broken_pipe_world ''data'' (connected_mgr Map.empty)
     = (None, (connected_mgr Map.empty)\<lparr>gw_fd_raw := None, gw_fd := None,
          trace := [Call (gw_fd_write ''data''), Call gw_fd_raw_close, Call socket_socket,
            Call socket_connect, Call SSLSocket, Call (gw_fd_write ''data''), Call gw_fd_raw_close,
            Log log_warn Failed_to_send_packet]\<rparr>)"
  by (simp add: send_item_def numeral_2_eq_2 disconnected_def connect_def ext_def Let_def logger_def
      broken_pipe_world_def table_world_def connected_mgr_def)

text \<open>
  The same round, the loop around it and the next \<open>send_push\<close> when the gateway has
  gone away, so that the reconnect of the second attempt fails as well.
\<close>

lemma send_item_gateway_down:
  "send_item gateway_down_world ''data'' (connected_mgr Map.empty)
     = (Some socket_error,
        (connected_mgr Map.empty)\<lparr>gw_fd_raw := Some 3, gw_fd := None,
          trace := [Call (gw_fd_write ''data''), Call gw_fd_raw_close, Call socket_socket,
            Call socket_connect]\<rparr>)"
  by (simp add: send_item_def numeral_2_eq_2 disconnected_def connect_def
      ext_def Let_def logger_def gateway_down_world_def table_world_def connected_mgr_def)

lemma send_loop_gateway_down:
  "send_loop gateway_down_world ((connected_mgr Map.empty)\<lparr>send_queue := [''data'', ''more'']\<rparr>)
     = (Some socket_error,
        (connected_mgr Map.empty)\<lparr>gw_fd_raw := Some 3, gw_fd := None, send_queue := [''more''],
          trace := [Call (gw_fd_write ''data''), Call gw_fd_raw_close, Call socket_socket,
            Call socket_connect]\<rparr>)"
  by (simp add: send_loop_def send_item_def numeral_2_eq_2 disconnected_def connect_def
      ext_def Let_def logger_def gateway_down_world_def table_world_def connected_mgr_def)

lemma send_push_gateway_down:
  "send_push gateway_down_world push_bundle
        ((connected_mgr Map.empty)\<lparr>gw_fd_raw := Some 3, gw_fd := None,
          trace := [Call (gw_fd_write ''data''), Call gw_fd_raw_close, Call socket_socket,
            Call socket_connect]\<rparr>)
     = (Some socket_error,
        (connected_mgr Map.empty)\<lparr>gw_fd_raw := Some 5, gw_fd := None,
          trace := [Call (gw_fd_write ''data''), Call gw_fd_raw_close, Call socket_socket,
            Call socket_connect, Call socket_socket, Call socket_connect]\<rparr>)"
  by (simp add: send_push_def disconnected_def connect_def
      ext_def Let_def gateway_down_world_def table_world_def connected_mgr_def)

text \<open>
  C3. The policy of two attempts and a warning does not cover a reconnect that fails:
  \<open>_send\<close> calls \<open>connect\<close> outside the \<open>try\<close> that guards the write. On a connected
  manager whose gateway has gone away, the first write raises \<open>socket.error\<close>, the
  handles are closed and reset, and the second attempt starts by reconnecting; nothing
  in \<open>_send\<close> catches the \<open>socket.error\<close> of that \<open>connect\<close>. The round ends with the
  exception after a single write and without any warning; the loop is over with the
  next item still in the queue; and the next \<open>send_push\<close>, which finds the manager
  disconnected, gets the same error from its own \<open>connect\<close>.
\<close>

theorem send_loop_killed_by_failed_reconnect:
  "send_item gateway_down_world ''data'' (connected_mgr Map.empty)
     = (Some socket_error,
        (connected_mgr Map.empty)\<lparr>gw_fd_raw := Some 3, gw_fd := None,
          trace := [Call (gw_fd_write ''data''), Call gw_fd_raw_close, Call socket_socket,
            Call socket_connect]\<rparr>)
   \<and> filter is_Log (trace (snd (send_item gateway_down_world ''data'' (connected_mgr Map.empty)))) = []
   \<and> length (filter is_write
        (trace (snd (send_item gateway_down_world ''data'' (connected_mgr Map.empty))))) = 1
   \<and> fst (send_loop gateway_down_world ((connected_mgr Map.empty)\<lparr>send_queue := [''data'', ''more'']\<rparr>))
       = Some socket_error
   \<and> send_queue (snd (send_loop gateway_down_world
        ((connected_mgr Map.empty)\<lparr>send_queue := [''data'', ''more'']\<rparr>))) = [''more'']
   \<and> fst (send_push gateway_down_world push_bundle
        (snd (send_item gateway_down_world ''data'' (connected_mgr Map.empty)))) = Some socket_error"
  by (simp add: send_item_gateway_down send_loop_gateway_down send_push_gateway_down)

end
